theory Spec2Isabelle
  imports Main
begin

section \<open>Python strings\<close>

text \<open>
  A Python \<open>str\<close> is modelled as a \<open>string\<close> (a list of characters); the characters
  are the code points below 256.  Every string operation the material-document code of
  \<open>vtf_material_tool_pyside6.py\<close> uses is defined here with Python's meaning.
\<close>

definition tab :: char where
  "tab = CHR 0x09"

definition newline :: char where
  "newline = CHR 0x0A"

definition dquote :: char where
  "dquote = CHR 0x22"

text \<open>\<open>str.isspace\<close> on one code point: what \<open>strip()\<close> without argument removes.\<close>

definition isspace :: "char \<Rightarrow> bool" where
  "isspace c = (let n = (of_char c :: nat) in
     (9 \<le> n \<and> n \<le> 13) \<or> (28 \<le> n \<and> n \<le> 32) \<or> n = 133 \<or> n = 160)"

text \<open>\<open>str.lower\<close>: A-Z and the Latin-1 capitals move up by 32.\<close>

definition lower_chr :: "char \<Rightarrow> char" where
  "lower_chr c = (let n = (of_char c :: nat) in
     if (65 \<le> n \<and> n \<le> 90) \<or> (192 \<le> n \<and> n \<le> 222 \<and> n \<noteq> 215)
     then char_of (n + 32) else c)"

definition lower :: "string \<Rightarrow> string" where
  "lower s = map lower_chr s"


definition strip :: "string \<Rightarrow> string" where
  "strip s = rev (dropWhile isspace (rev (dropWhile isspace s)))"

definition startswith :: "string \<Rightarrow> string \<Rightarrow> bool" where
  "startswith p s = (take (length p) s = p)"


text \<open>\<open>sub in s\<close> on strings: \<open>sub\<close> occurs in \<open>s\<close> as a contiguous run.\<close>

fun str_in :: "string \<Rightarrow> string \<Rightarrow> bool" where
  "str_in sub [] = (sub = [])"
| "str_in sub (c # cs) = (startswith sub (c # cs) \<or> str_in sub cs)"

text \<open>\<open>s.count(c)\<close> and \<open>c in s\<close> for a one-character \<open>c\<close>.\<close>

definition count_chr :: "char \<Rightarrow> string \<Rightarrow> nat" where
  "count_chr c s = length (filter (\<lambda>x. x = c) s)"

definition chr_in :: "char \<Rightarrow> string \<Rightarrow> bool" where
  "chr_in c s = (c \<in> set s)"

text \<open>\<open>s.split(sep)\<close> for a one-character separator: one piece more than separators.\<close>

fun split_chr :: "char \<Rightarrow> string \<Rightarrow> string list" where
  "split_chr sep [] = [[]]"
| "split_chr sep (c # cs) =
     (if c = sep then [] # split_chr sep cs
      else (case split_chr sep cs of [] \<Rightarrow> [[c]] | w # ws \<Rightarrow> (c # w) # ws))"

text \<open>\<open>'\n'.join(lines)\<close>.\<close>

fun join_nl :: "string list \<Rightarrow> string" where
  "join_nl [] = []"
| "join_nl [l] = l"
| "join_nl (l # l' # ls) = l @ newline # join_nl (l' # ls)"

section \<open>Python dictionaries\<close>

text \<open>
  A \<open>dict\<close> of parameters keeps insertion order, which decides the order of the written
  file, so it is an association list.  \<open>d[k] = v\<close> replaces the value where \<open>k\<close> already
  stands and appends the pair otherwise; keys are compared as they are written
  (case-sensitively).
\<close>

type_synonym pydict = "(string \<times> string) list"

fun dict_set :: "string \<Rightarrow> string \<Rightarrow> pydict \<Rightarrow> pydict" where
  "dict_set k v [] = [(k, v)]"
| "dict_set k v ((k', v') # d) =
     (if k' = k then (k', v) # d else (k', v') # dict_set k v d)"

definition dict_in :: "string \<Rightarrow> pydict \<Rightarrow> bool" where
  "dict_in k d = (k \<in> set (map fst d))"

definition dict_get :: "pydict \<Rightarrow> string \<Rightarrow> string option" where
  "dict_get d k = map_of d k"


definition dict_update :: "pydict \<Rightarrow> pydict \<Rightarrow> pydict" where
  "dict_update d other = foldl (\<lambda>acc (k, v). dict_set k v acc) d other"

section \<open>The single-material engine (class L4D2ProcessingThread)\<close>

subsection \<open>Parsing\<close>

text \<open>
  The body of the loop of \<open>parse_standard_vmt\<close>: a stripped line that starts with
  \<open>"$\<close> and has a further quote is cut at the quotes; pieces 1 and 3 are the key and
  the value.
\<close>

definition parse_standard_vmt_line :: "pydict \<Rightarrow> string \<Rightarrow> pydict" where
  "parse_standard_vmt_line params raw =
     (let line = strip raw in
      if startswith [dquote, CHR ''$''] line \<and> chr_in dquote (drop 2 line) then
        (let parts = split_chr dquote line in
         if length parts \<ge> 4 then dict_set (parts ! 1) (parts ! 3) params else params)
      else params)"

definition parse_standard_vmt :: "string \<Rightarrow> pydict" where
  "parse_standard_vmt vmt_content =
     foldl parse_standard_vmt_line [] (split_chr newline vmt_content)"

text \<open>
  \<open>parse_patch_vmt\<close> scans the text three times.  The first scan looks for the include
  path, which is only reported through the progress signal: no file is opened.
\<close>

definition find_chr :: "char \<Rightarrow> string \<Rightarrow> nat option" where
  "find_chr c s = (if c \<in> set s then Some (length (takeWhile (\<lambda>x. x \<noteq> c) s)) else None)"

definition rfind_chr :: "char \<Rightarrow> string \<Rightarrow> nat option" where
  "rfind_chr c s =
     (if c \<in> set s then Some (length s - 1 - length (takeWhile (\<lambda>x. x \<noteq> c) (rev s))) else None)"

definition include_of_line :: "string \<Rightarrow> string option" where
  "include_of_line raw =
     (let line = strip raw in
      if str_in ''include'' (lower line) \<and> str_in ''.vmt'' (lower line) then
        (case (find_chr dquote line, rfind_chr dquote line) of
           (Some start, Some end) \<Rightarrow>
             if start \<noteq> end then Some (take (end - (start + 1)) (drop (start + 1) line)) else None
         | _ \<Rightarrow> None)
      else None)"

fun include_match :: "string list \<Rightarrow> string option" where
  "include_match [] = None"
| "include_match (l # ls) =
     (case include_of_line l of Some p \<Rightarrow> Some p | None \<Rightarrow> include_match ls)"

text \<open>
  The second and third scans are the same loop for the keywords \<open>replace\<close> and
  \<open>insert\<close>: the state is the flag \<open>in_replace_block\<close> (\<open>in_insert_block\<close>) and the
  dictionary, which the third scan goes on filling.  No step of the three scans can
  raise, so the \<open>except\<close> branch of \<open>parse_patch_vmt\<close> is never taken.
\<close>

definition patch_block_line :: "string \<Rightarrow> bool \<times> pydict \<Rightarrow> string \<Rightarrow> bool \<times> pydict" where
  "patch_block_line keyword st raw =
     (let line = strip raw; in_block = fst st; params = snd st in
      if str_in keyword (lower line) \<and> chr_in (CHR ''{'') line then (True, params)
      else if in_block \<and> chr_in (CHR ''}'') line then (False, params)
      else if in_block \<and> startswith [dquote, CHR ''$''] line then
        (let parts = split_chr dquote line in
         if length parts \<ge> 4 then (in_block, dict_set (parts ! 1) (parts ! 3) params)
         else (in_block, params))
      else (in_block, params))"

definition parse_patch_vmt :: "string \<Rightarrow> pydict" where
  "parse_patch_vmt vmt_content =
     (let lines = split_chr newline vmt_content;
          params1 = snd (foldl (patch_block_line ''replace'') (False, []) lines);
          params2 = snd (foldl (patch_block_line ''insert'') (False, params1) lines)
      in params2)"

definition parse_vmt_params :: "string \<Rightarrow> pydict" where
  "parse_vmt_params vmt_content =
     (if str_in ''patch'' (lower vmt_content) \<and> str_in ''include'' (lower vmt_content)
      then parse_patch_vmt vmt_content
      else parse_standard_vmt vmt_content)"

subsection \<open>Serialising\<close>

definition param_line :: "string \<times> string \<Rightarrow> string" where
  "param_line kv = tab # dquote # fst kv @ dquote # tab # tab # dquote # snd kv @ [dquote]"

definition build_vmt_from_params :: "pydict \<Rightarrow> string" where
  \<open>build_vmt_from_params params =
     join_nl ([''"VertexLitGeneric"'', ''{''] @ map param_line params @ [''}''])\<close>

subsection \<open>Classification and merge\<close>

definition pbr_semantic_keywords :: "string list" where
  "pbr_semantic_keywords =
     [''phong'', ''envmap'', ''bump'', ''normal'', ''metallic'', ''roughness'',
      ''basetexture'', ''albedo'', ''specular'', ''reflection'']"

definition common_pbr_params :: "string list" where
  "common_pbr_params =
     [''$model'', ''$surfaceprop'', ''$halflambert'', ''$phongfresnelranges'',
      ''$phongboost'', ''$phongalbedotint'', ''$envmapfresnel'', ''$envmapcontrast'',
      ''$envmaptint'', ''$normalmapalphaenvmapmask'']"

text \<open>\<open>value.lower() if value else ""\<close>.\<close>

definition value_lower :: "string \<Rightarrow> string" where
  "value_lower v = (if v \<noteq> [] then lower v else [])"

definition has_keyword :: "string list \<Rightarrow> string \<Rightarrow> bool" where
  "has_keyword kws param_lower = list_ex (\<lambda>keyword. str_in keyword param_lower) kws"

text \<open>
  \<open>identify_pbr_parameters\<close>: four loops that add lower-cased names to the set
  \<open>pbr_params\<close>.  \<open>material_name\<close> is the field \<open>self.material_name\<close>.
\<close>

definition identify_pbr_parameters :: "string \<Rightarrow> pydict \<Rightarrow> pydict \<Rightarrow> string set" where
  "identify_pbr_parameters material_name existing_params generated_params =
     (let s1 = foldl (\<lambda>s (param, value).
                  if str_in (lower material_name) (value_lower value)
                  then insert (lower param) s else s) {} existing_params;
          s2 = foldl (\<lambda>s (param, value).
                  if str_in (lower material_name) (value_lower value)
                  then insert (lower param) s else s) s1 generated_params;
          s3 = foldl (\<lambda>s param.
                  if has_keyword pbr_semantic_keywords (lower param)
                  then insert (lower param) s else s) s2 (map fst generated_params);
          s4 = foldl (\<lambda>s param.
                  if lower param \<in> set common_pbr_params
                  then insert (lower param) s else s) s3 (map fst generated_params)
      in s4)"

text \<open>The merge loop of \<open>smart_merge_vmt\<close>, on the two parsed dictionaries.\<close>

definition smart_merge_step :: "string set \<Rightarrow> pydict \<Rightarrow> pydict \<Rightarrow> string \<times> string \<Rightarrow> pydict" where
  "smart_merge_step pbr_related_params existing_params merged_params pv =
     (if lower (fst pv) \<in> pbr_related_params then dict_set (fst pv) (snd pv) merged_params
      else if \<not> dict_in (fst pv) existing_params then dict_set (fst pv) (snd pv) merged_params
      else merged_params)"

definition smart_merge_params :: "string \<Rightarrow> pydict \<Rightarrow> pydict \<Rightarrow> pydict" where
  "smart_merge_params material_name existing_params generated_params =
     foldl (smart_merge_step
              (identify_pbr_parameters material_name existing_params generated_params)
              existing_params)
       existing_params generated_params"

text \<open>
  \<open>smart_merge_vmt\<close> reads the file at \<open>self.existing_vmt_path\<close>; the file system is
  the function \<open>fs\<close> from a path to the text stored there.  A file that cannot be read
  raises, and the \<open>except\<close> branch returns the generated text: \<open>Fallback\<close>.  Nothing
  after the read can raise, so every other run ends in \<open>Merged\<close>.
\<close>

datatype merge_outcome = Merged string | Fallback string


definition smart_merge_vmt ::
  "(string \<Rightarrow> string option) \<Rightarrow> string \<Rightarrow> string \<Rightarrow> string \<Rightarrow> merge_outcome" where
  "smart_merge_vmt fs material_name existing_vmt_path generated_vmt =
     (case fs existing_vmt_path of
        None \<Rightarrow> Fallback generated_vmt
      | Some existing_content \<Rightarrow>
          Merged (build_vmt_from_params
            (smart_merge_params material_name
               (parse_vmt_params existing_content) (parse_vmt_params generated_vmt))))"

section \<open>The merge of the conversion tab (class L4D2ConversionTab)\<close>

definition parse_vmt_parameters :: "string \<Rightarrow> pydict" where
  "parse_vmt_parameters vmt_content =
     foldl parse_standard_vmt_line [] (split_chr newline vmt_content)"

definition generate_vmt_from_params :: "pydict \<Rightarrow> string" where
  \<open>generate_vmt_from_params params =
     join_nl ([''"VertexLitGeneric"'', ''{''] @ map param_line params @ [''}''])\<close>

definition pbr_params :: "string list" where
  "pbr_params =
     [''$basetexture'', ''$bumpmap'', ''$phong'', ''$phongexponent'',
      ''$phongexponenttexture'', ''$phongboost'', ''$phongfresnelranges'',
      ''$envmap'', ''$envmaptint'', ''$envmapcontrast'', ''$normalmapalphaenvmapmask'',
      ''$envmapfresnel'', ''$phongalbedotint'', ''$halflambert'', ''$model'', ''$surfaceprop'']"

definition merge_vmt_step :: "pydict \<Rightarrow> string \<times> string \<Rightarrow> pydict" where
  "merge_vmt_step merged_params kv =
     (if lower (fst kv) \<in> set pbr_params then dict_set (fst kv) (snd kv) merged_params
      else merged_params)"

definition merge_vmt_params :: "pydict \<Rightarrow> pydict \<Rightarrow> pydict" where
  "merge_vmt_params original_params generated_params =
     foldl merge_vmt_step original_params generated_params"

definition merge_vmt_files ::
  "(string \<Rightarrow> string option) \<Rightarrow> string \<Rightarrow> string \<Rightarrow> merge_outcome" where
  "merge_vmt_files fs original_vmt_path generated_vmt_content =
     (case fs original_vmt_path of
        None \<Rightarrow> Fallback generated_vmt_content
      | Some original_content \<Rightarrow>
          Merged (generate_vmt_from_params
            (merge_vmt_params (parse_vmt_parameters original_content)
               (parse_vmt_parameters generated_vmt_content))))"

section \<open>The batch engine (class L4D2BatchProcessingThread)\<close>

text \<open>
  What the batch engine reads from outside: \<open>files\<close> gives the text of the file at a
  path (\<open>None\<close> when the file does not exist or cannot be read), \<open>path_join\<close> and
  \<open>path_parent\<close> stand for \<open>Path(base_dir) / include_path\<close> and \<open>Path(p).parent\<close>
  of \<open>pathlib\<close>, and \<open>patch_enabled\<close> is the test
  \<open>hasattr(self, 'patch_format_checkbox') and self.patch_format_checkbox.isChecked()\<close>.
\<close>

record batch_env =
  files :: "string \<Rightarrow> string option"
  path_join :: "string \<Rightarrow> string \<Rightarrow> string"
  path_parent :: "string \<Rightarrow> string"
  patch_enabled :: bool

text \<open>\<open>_extract_quoted_value\<close>: the text between the first two quotes, or \<open>""\<close>.\<close>

definition extract_quoted_value :: "string \<Rightarrow> string" where
  "extract_quoted_value line =
     (case find_chr dquote line of
        None \<Rightarrow> []
      | Some start \<Rightarrow>
          (let rest = drop (start + 1) line in
           case find_chr dquote rest of None \<Rightarrow> [] | Some n \<Rightarrow> take n rest))"

text \<open>\<open>_parse_vmt_line\<close>: \<open>None\<close> stands for the pair \<open>(None, None)\<close>.\<close>

definition parse_vmt_line :: "string \<Rightarrow> (string \<times> string) option" where
  "parse_vmt_line line =
     (let parts = split_chr dquote line in
      if length parts \<ge> 4 then Some (parts ! 1, parts ! 3) else None)"

text \<open>
  The state of the loop of \<open>parse_patch_vmt_params\<close>: the dictionary \<open>params\<close>, the
  variable \<open>current_section\<close> and the counter \<open>brace_level\<close>.
\<close>

record patch_state =
  p_params :: pydict
  p_section :: "string option"
  p_level :: int

text \<open>
  One turn of the loop.  \<open>load\<close> is \<open>_load_include_file\<close> with the directory already
  given.  A line with a closing brace ends the turn after the braces are counted
  (\<open>continue\<close>); every other line goes on with the level counted so far.
\<close>

definition parse_patch_vmt_params_line ::
  "(string \<Rightarrow> pydict) \<Rightarrow> patch_state \<Rightarrow> string \<Rightarrow> patch_state" where
  \<open>parse_patch_vmt_params_line load st raw =
     (let line = strip raw in
      if line = [] \<or> startswith ''//'' line then st
      else
        (let level1 = (if chr_in (CHR ''{'') line
                       then p_level st + int (count_chr (CHR ''{'') line) else p_level st);
             st1 = st\<lparr>p_level := level1\<rparr>
         in
         if chr_in (CHR ''}'') line then
           (let level2 = level1 - int (count_chr (CHR ''}'') line) in
            if level2 \<le> 1 \<and> p_section st \<noteq> None
            then st\<lparr>p_level := level2, p_section := None\<rparr>
            else st\<lparr>p_level := level2\<rparr>)
         else if startswith ''patch'' (lower line) \<and> level1 = 0 then st1
         else if startswith ''include'' line \<and> chr_in dquote line then
           (let include_path = extract_quoted_value line in
            if include_path \<noteq> []
            then st1\<lparr>p_params := dict_update (p_params st) (load include_path)\<rparr>
            else st1)
         else if lower line = ''insert'' \<or> lower line = ''replace'' then
           st1\<lparr>p_section := Some (lower line)\<rparr>
         else if p_section st \<noteq> None \<and> startswith ''"$'' line \<and> chr_in dquote (drop 2 line)
         then
           (case parse_vmt_line line of
              None \<Rightarrow> st1
            | Some (param_name, param_value) \<Rightarrow>
                if param_name \<noteq> [] \<and> param_value \<noteq> [] then
                  (if p_section st = Some ''replace'' \<or> \<not> dict_in param_name (p_params st)
                   then st1\<lparr>p_params := dict_set param_name param_value (p_params st)\<rparr>
                   else st1)
                else st1)
         else st1))\<close>

definition parse_patch_lines :: "(string \<Rightarrow> pydict) \<Rightarrow> string \<Rightarrow> pydict" where
  "parse_patch_lines load vmt_content =
     p_params (foldl (parse_patch_vmt_params_line load)
       \<lparr>p_params = [], p_section = None, p_level = 0\<rparr> (split_chr newline vmt_content))"

text \<open>The test of \<open>parse_batch_vmt_params\<close> and \<open>smart_merge_batch_vmt\<close> for a patch text.\<close>

definition patch_format_text :: "string \<Rightarrow> bool" where
  "patch_format_text vmt_content =
     (startswith ''patch'' (lower (strip vmt_content)) \<or> str_in ''include'' (lower vmt_content))"

text \<open>
  \<open>_load_include_file\<close>, \<open>parse_patch_vmt_params\<close> and \<open>parse_batch_vmt_params\<close> call
  each other as long as included files include further files.  The first argument
  after the environment bounds the depth of includes that are followed: at depth \<open>0\<close>
  an include loads nothing, as when Python's recursion limit is hit and the
  \<open>except\<close> branch of \<open>_load_include_file\<close> returns the empty dictionary.  In
  \<open>_load_include_file\<close> the call of \<open>parse_batch_vmt_params\<close> on the included text
  is written out.
\<close>

primrec load_include_file :: "batch_env \<Rightarrow> nat \<Rightarrow> string \<Rightarrow> string \<Rightarrow> pydict" where
  "load_include_file env 0 = (\<lambda>include_path base_dir. [])"
| "load_include_file env (Suc n) = (\<lambda>include_path base_dir.
     (let full_path = (if base_dir \<noteq> [] then path_join env base_dir include_path
                       else include_path)
      in case files env full_path of
           None \<Rightarrow> []
         | Some content \<Rightarrow>
             if startswith ''patch'' (strip content)
             then parse_patch_lines
                    (\<lambda>inc. load_include_file env n inc (path_parent env full_path)) content
             else if patch_enabled env \<and> patch_format_text content
             then parse_patch_lines
                    (\<lambda>inc. load_include_file env n inc
                       (if full_path \<noteq> [] then path_parent env full_path else [])) content
             else foldl parse_standard_vmt_line [] (split_chr newline content)))"

definition parse_patch_vmt_params :: "batch_env \<Rightarrow> nat \<Rightarrow> string \<Rightarrow> string \<Rightarrow> pydict" where
  "parse_patch_vmt_params env depth vmt_content base_dir =
     parse_patch_lines (\<lambda>inc. load_include_file env depth inc base_dir) vmt_content"

definition parse_batch_vmt_params :: "batch_env \<Rightarrow> nat \<Rightarrow> string \<Rightarrow> string \<Rightarrow> pydict" where
  "parse_batch_vmt_params env depth vmt_content vmt_file_path =
     (if patch_enabled env \<and> patch_format_text vmt_content
      then parse_patch_vmt_params env depth vmt_content
             (if vmt_file_path \<noteq> [] then path_parent env vmt_file_path else [])
      else foldl parse_standard_vmt_line [] (split_chr newline vmt_content))"

subsection \<open>Writing a patch document back\<close>







subsection \<open>The batch merge\<close>






section \<open>The scenarios of the specification\<close>

definition scenario_A_existing :: pydict where
  "scenario_A_existing = [(''$basetexture'', ''old/path''), (''$surfaceprop'', ''metal'')]"

definition scenario_A_generated :: pydict where
  "scenario_A_generated = [(''$basetexture'', ''new/path''), (''$phong'', ''1'')]"

definition scenario_A_merged :: pydict where
  "scenario_A_merged =
     [(''$basetexture'', ''new/path''), (''$surfaceprop'', ''metal''), (''$phong'', ''1'')]"

definition scenario_A_existing_text :: string where
  \<open>scenario_A_existing_text = join_nl
     [''"VertexLitGeneric"'', ''{'',
      ''  "$basetexture" "old/path"'',
      ''  "$surfaceprop" "metal"'', ''}'']\<close>

definition scenario_A_generated_text :: string where
  \<open>scenario_A_generated_text = join_nl
     [''"VertexLitGeneric"'', ''{'',
      ''  "$basetexture" "new/path"'',
      ''  "$phong" "1"'', ''}'']\<close>

text \<open>The malformed input of the specification: the closing brace is missing.\<close>

definition malformed_text :: string where
  \<open>malformed_text = ''"Foo" { "$a" "1"''\<close>

text \<open>
  \<open>generate_l4d2_vmt_with_materials_detection\<close>, the generated text of the
  single-material engine.  The material path, which the source works out from the
  output directory, is the argument.  The keys stand without quotes.
\<close>

definition generate_l4d2_vmt_with_materials_detection :: "string \<Rightarrow> string" where
  \<open>generate_l4d2_vmt_with_materials_detection material_path = join_nl
     [''"VertexLitGeneric"'',
      ''{'',
      tab # ''$basetexture'' @ [tab, tab] @ ''"'' @ material_path @ ''_basecolor"'',
      tab # ''$bumpmap'' @ [tab, tab, tab] @ ''"'' @ material_path @ ''_bump"'',
      [],
      tab # ''$envmap'' @ [tab, tab, tab, tab, tab] @ ''"env_cubemap"'',
      tab # ''$envmaptint'' @ [tab, tab, tab, tab] @ ''"[0.1 0.1 0.1]"'',
      tab # ''$envmapcontrast'' @ [tab, tab, tab] @ ''1.0'',
      tab # ''$envmapmask'' @ [tab, tab, tab, tab] @ ''"'' @ material_path @ ''_envmask"'',
      tab # ''$envmapfresnel'' @ [tab, tab, tab] @ ''1'',
      [],
      tab # ''$phong 1'',
      tab # ''$phongexponenttexture'' @ [tab] @ ''"'' @ material_path @ ''_phongexp"'',
      tab # ''$phongexponentfactor'' @ [tab] @ ''32.0'',
      tab # ''$phongboost'' @ [tab, tab, tab, tab] @ ''5.0'',
      tab # ''$phongfresnelranges'' @ [tab, tab] @ ''"[0.1 0.8 1.0]"'',
      ''}'']\<close>





text \<open>
  A file system with the listed files, for the examples: paths are joined and cut as
  on POSIX.
\<close>

definition posix_join :: "string \<Rightarrow> string \<Rightarrow> string" where
  "posix_join base_dir p = (if startswith ''/'' p then p else base_dir @ ''/'' @ p)"

definition posix_parent :: "string \<Rightarrow> string" where
  "posix_parent p = (case rfind_chr (CHR ''/'') p of None \<Rightarrow> ''.'' | Some i \<Rightarrow> take i p)"

definition example_env :: "(string \<times> string) list \<Rightarrow> bool \<Rightarrow> batch_env" where
  "example_env fs enabled =
     \<lparr>files = map_of fs, path_join = posix_join, path_parent = posix_parent,
      patch_enabled = enabled\<rparr>"

definition example_base_text :: string where
  \<open>example_base_text = join_nl
     [''"VertexLitGeneric"'', ''{'',
      ''  "$envmap" "env_cubemap"'',
      ''  "$basetexture" "base/tex"'', ''}'']\<close>

definition example_other_base_text :: string where
  \<open>example_other_base_text = join_nl
     [''"VertexLitGeneric"'', ''{'',
      ''  "$envmap" "other_cubemap"'', ''}'']\<close>

definition example_patch_text :: string where
  \<open>example_patch_text = join_nl
     [''patch'', ''{'',
      ''  include "base.vmt"'',
      ''  insert'', ''  {'',
      ''    "$basetexture" "ins/tex"'',
      ''    "$detail" "ins/detail"'',
      ''  }'',
      ''  replace'', ''  {'',
      ''    "$basetexture" "rep/tex"'',
      ''  }'', ''}'']\<close>

definition example_empty_replace_text :: string where
  \<open>example_empty_replace_text = join_nl
     [''patch'', ''{'',
      ''  include "base.vmt"'',
      ''  replace'', ''  {'',
      ''    "$envmap" ""'',
      ''  }'', ''}'']\<close>

section \<open>Properties of dictionaries\<close>

text \<open>No two keys of the dictionary are equal once both are lower-cased.\<close>

definition keys_unique_ci :: "pydict \<Rightarrow> bool" where
  "keys_unique_ci d = distinct (map (\<lambda>kv. lower (fst kv)) d)"

text \<open>
  A parameter that the written form can carry: the key starts with \<open>$\<close>, and neither
  the key nor the value holds a quote or a line break.
\<close>

definition plain_param :: "string \<times> string \<Rightarrow> bool" where
  "plain_param kv =
     (startswith ''$'' (fst kv) \<and> dquote \<notin> set (fst kv) \<and> newline \<notin> set (fst kv) \<and>
      dquote \<notin> set (snd kv) \<and> newline \<notin> set (snd kv))"

text \<open>The test of \<open>parse_vmt_params\<close> for a patch document.\<close>

definition looks_like_patch :: "string \<Rightarrow> bool" where
  "looks_like_patch vmt_content =
     (str_in ''patch'' (lower vmt_content) \<and> str_in ''include'' (lower vmt_content))"

text \<open>A line that, once stripped, does not start with \<open>"$\<close>.\<close>

definition no_param_line :: "string \<Rightarrow> bool" where
  "no_param_line line = (\<not> startswith [dquote, CHR ''$''] (strip line))"

section \<open>Dictionaries: basic facts\<close>

lemma dict_set_keys_old: "k \<in> fst ` set d \<Longrightarrow> map fst (dict_set k v d) = map fst d"
  by (induction d) force+

lemma dict_set_new: "k \<notin> fst ` set d \<Longrightarrow> dict_set k v d = d @ [(k, v)]"
  by (induction d) auto

lemma dict_set_keys:
  "map fst (dict_set k v d) = (if k \<in> fst ` set d then map fst d else map fst d @ [k])"
  by (simp add: dict_set_keys_old dict_set_new)

lemma distinct_dict_set:
  "distinct (map fst d) \<Longrightarrow> distinct (map fst (dict_set k v d))"
  by (simp add: dict_set_keys)

lemma map_of_dict_set: "map_of (dict_set k v d) = (map_of d)(k \<mapsto> v)"
  by (induction d) (auto simp: fun_eq_iff)


section \<open>The classifier as a set\<close>

lemma foldl_insert_if:
  "foldl (\<lambda>s x. if P x then insert (f x) s else s) s0 xs = s0 \<union> f ` {x \<in> set xs. P x}"
  by (induction xs arbitrary: s0) auto

lemma identify_pbr_parameters_iff:
  "x \<in> identify_pbr_parameters m e g \<longleftrightarrow>
     (\<exists>p v. (p, v) \<in> set e \<and> x = lower p \<and> str_in (lower m) (value_lower v)) \<or>
     (\<exists>p v. (p, v) \<in> set g \<and> x = lower p \<and>
        (str_in (lower m) (value_lower v) \<or> has_keyword pbr_semantic_keywords (lower p)
         \<or> lower p \<in> set common_pbr_params))"
  unfolding identify_pbr_parameters_def Let_def case_prod_unfold foldl_insert_if
  by (auto simp: image_iff)

lemma pbr_keyword_member:
  "(p, v) \<in> set g \<Longrightarrow> has_keyword pbr_semantic_keywords (lower p) \<Longrightarrow>
   lower p \<in> identify_pbr_parameters m e g"
  unfolding identify_pbr_parameters_iff by blast

section \<open>Parsing and merging keep the keys of a dictionary distinct\<close>

lemma distinct_parse_standard_vmt_line:
  "distinct (map fst params) \<Longrightarrow> distinct (map fst (parse_standard_vmt_line params raw))"
  by (simp add: parse_standard_vmt_line_def Let_def distinct_dict_set)

lemma distinct_foldl_standard:
  "distinct (map fst params) \<Longrightarrow>
   distinct (map fst (foldl parse_standard_vmt_line params ls))"
  by (induction ls arbitrary: params) (simp_all add: distinct_parse_standard_vmt_line)

lemma distinct_patch_block_line:
  "distinct (map fst (snd st)) \<Longrightarrow> distinct (map fst (snd (patch_block_line kw st raw)))"
  by (simp add: patch_block_line_def Let_def distinct_dict_set)

lemma distinct_foldl_patch:
  "distinct (map fst (snd st)) \<Longrightarrow>
   distinct (map fst (snd (foldl (patch_block_line kw) st ls)))"
  by (induction ls arbitrary: st) (simp_all add: distinct_patch_block_line)

lemma distinct_parse_vmt_params: "distinct (map fst (parse_vmt_params c))"
  by (simp add: parse_vmt_params_def parse_standard_vmt_def parse_patch_vmt_def Let_def
      distinct_foldl_standard distinct_foldl_patch)


lemma distinct_smart_merge_step:
  "distinct (map fst merged) \<Longrightarrow> distinct (map fst (smart_merge_step pbr e merged pv))"
  by (simp add: smart_merge_step_def distinct_dict_set)

lemma distinct_foldl_smart_merge:
  "distinct (map fst merged) \<Longrightarrow> distinct (map fst (foldl (smart_merge_step pbr e) merged g))"
  by (induction g arbitrary: merged) (simp_all add: distinct_smart_merge_step)

lemma distinct_smart_merge_params:
  "distinct (map fst e) \<Longrightarrow> distinct (map fst (smart_merge_params m e g))"
  by (simp add: smart_merge_params_def distinct_foldl_smart_merge)

lemma distinct_foldl_merge_vmt:
  "distinct (map fst merged) \<Longrightarrow> distinct (map fst (foldl merge_vmt_step merged g))"
  by (induction g arbitrary: merged) (simp_all add: merge_vmt_step_def distinct_dict_set)

section \<open>Merging a dictionary with itself\<close>



section \<open>Scenario A: evaluation\<close>

lemma lower_basetexture: "lower ''$basetexture'' = ''$basetexture''"
  by code_simp

lemma lower_phong: "lower ''$phong'' = ''$phong''"
  by code_simp

lemma kw_basetexture: "has_keyword pbr_semantic_keywords ''$basetexture''"
  by code_simp

lemma kw_phong: "has_keyword pbr_semantic_keywords ''$phong''"
  by code_simp

lemma parse_scenario_A_existing:
  "parse_vmt_params scenario_A_existing_text = scenario_A_existing"
  by code_simp

lemma parse_scenario_A_generated:
  "parse_vmt_params scenario_A_generated_text = scenario_A_generated"
  by code_simp

lemma smart_merge_scenario_A:
  "smart_merge_params m scenario_A_existing scenario_A_generated = scenario_A_merged"
proof -
  define pbr where "pbr = identify_pbr_parameters m scenario_A_existing scenario_A_generated"
  have "lower ''$basetexture'' \<in> pbr"
    unfolding pbr_def
    by (rule pbr_keyword_member [where v = "''new/path''"])
       (simp_all add: scenario_A_generated_def lower_basetexture kw_basetexture)
  then have 1: "smart_merge_step pbr scenario_A_existing d (''$basetexture'', ''new/path'')
      = dict_set ''$basetexture'' ''new/path'' d" for d
    by (simp add: smart_merge_step_def)
  have "lower ''$phong'' \<in> pbr"
    unfolding pbr_def
    by (rule pbr_keyword_member [where v = "''1''"])
       (simp_all add: scenario_A_generated_def lower_phong kw_phong)
  then have 2: "smart_merge_step pbr scenario_A_existing d (''$phong'', ''1'')
      = dict_set ''$phong'' ''1'' d" for d
    by (simp add: smart_merge_step_def)
  have "smart_merge_params m scenario_A_existing scenario_A_generated
      = dict_set ''$phong'' ''1'' (dict_set ''$basetexture'' ''new/path'' scenario_A_existing)"
    unfolding smart_merge_params_def pbr_def [symmetric]
    by (simp add: scenario_A_generated_def 1 2)
  also have "\<dots> = scenario_A_merged"
    by (simp add: scenario_A_existing_def scenario_A_merged_def)
  finally show ?thesis .
qed

section \<open>Keys the merge loops leave alone, and keys they add\<close>

lemma map_of_smart_merge_step_other:
  "fst pv \<noteq> k \<Longrightarrow> map_of (smart_merge_step pbr e merged pv) k = map_of merged k"
  by (simp add: smart_merge_step_def map_of_dict_set)

lemma map_of_foldl_smart_merge_other:
  "k \<notin> fst ` set g \<Longrightarrow> map_of (foldl (smart_merge_step pbr e) merged g) k = map_of merged k"
  by (induction g arbitrary: merged) (auto simp: map_of_smart_merge_step_other)

lemma map_of_merge_vmt_step_other:
  "fst pv \<noteq> k \<Longrightarrow> map_of (merge_vmt_step merged pv) k = map_of merged k"
  by (simp add: merge_vmt_step_def map_of_dict_set)

lemma map_of_foldl_merge_vmt_other:
  "k \<notin> fst ` set g \<Longrightarrow> map_of (foldl merge_vmt_step merged g) k = map_of merged k"
  by (induction g arbitrary: merged) (auto simp: map_of_merge_vmt_step_other)

lemma foldl_smart_merge_new:
  "distinct (map fst g) \<Longrightarrow> (k, v) \<in> set g \<Longrightarrow> \<not> dict_in k e \<Longrightarrow>
   map_of (foldl (smart_merge_step pbr e) merged g) k = Some v"
proof (induction g arbitrary: merged)
  case Nil
  then show ?case by simp
next
  case (Cons x g)
  show ?case
  proof (cases "x = (k, v)")
    case True
    with Cons.prems have "k \<notin> fst ` set g" by auto
    then have "map_of (foldl (smart_merge_step pbr e) (smart_merge_step pbr e merged x) g) k
        = map_of (smart_merge_step pbr e merged x) k"
      by (rule map_of_foldl_smart_merge_other)
    also have "\<dots> = Some v"
      using True Cons.prems(3) by (simp add: smart_merge_step_def map_of_dict_set)
    finally show ?thesis by simp
  next
    case False
    with Cons.prems have "(k, v) \<in> set g" "distinct (map fst g)" by auto
    with Cons.IH Cons.prems(3) show ?thesis by simp
  qed
qed

lemma foldl_merge_vmt_new:
  "distinct (map fst g) \<Longrightarrow> (k, v) \<in> set g \<Longrightarrow> lower k \<in> set pbr_params \<Longrightarrow>
   map_of (foldl merge_vmt_step merged g) k = Some v"
proof (induction g arbitrary: merged)
  case Nil
  then show ?case by simp
next
  case (Cons x g)
  show ?case
  proof (cases "x = (k, v)")
    case True
    with Cons.prems have "k \<notin> fst ` set g" by auto
    then have "map_of (foldl merge_vmt_step (merge_vmt_step merged x) g) k
        = map_of (merge_vmt_step merged x) k"
      by (rule map_of_foldl_merge_vmt_other)
    also have "\<dots> = Some v"
      using True Cons.prems(3) by (simp add: merge_vmt_step_def map_of_dict_set)
    finally show ?thesis by simp
  next
    case False
    with Cons.prems have "(k, v) \<in> set g" "distinct (map fst g)" by auto
    with Cons.IH Cons.prems(3) show ?thesis by simp
  qed
qed

lemma map_of_foldl_merge_vmt_not_pbr:
  "lower k \<notin> set pbr_params \<Longrightarrow>
   map_of (foldl merge_vmt_step merged g) k = map_of merged k"
proof (induction g arbitrary: merged)
  case Nil
  then show ?case by simp
next
  case (Cons x g)
  have "map_of (merge_vmt_step merged x) k = map_of merged k"
    using Cons.prems by (cases "fst x = k") (auto simp: merge_vmt_step_def map_of_dict_set)
  with Cons show ?case by simp
qed

lemma lower_detail_not_pbr: "lower ''$detail'' \<notin> set pbr_params"
  by code_simp

lemma lower_phong_pbr: "lower ''$phong'' \<in> set pbr_params"
  by code_simp

lemma map_of_foldl_smart_merge_keep:
  "(\<And>w merged. (k, w) \<in> set g \<Longrightarrow> smart_merge_step pbr e merged (k, w) = merged) \<Longrightarrow>
   map_of (foldl (smart_merge_step pbr e) merged g) k = map_of merged k"
proof (induction g arbitrary: merged)
  case Nil
  then show ?case by simp
next
  case (Cons x g)
  have "map_of (smart_merge_step pbr e merged x) k = map_of merged k"
  proof (cases "fst x = k")
    case True
    then have "x = (k, snd x)" by (cases x) simp
    then have "smart_merge_step pbr e merged x = merged"
      using Cons.prems [of "snd x" merged] by simp
    then show ?thesis by simp
  next
    case False
    then show ?thesis by (rule map_of_smart_merge_step_other)
  qed
  moreover have "map_of (foldl (smart_merge_step pbr e) (smart_merge_step pbr e merged x) g) k
      = map_of (smart_merge_step pbr e merged x) k"
    using Cons.prems by (intro Cons.IH) simp
  ultimately show ?case by simp
qed

lemma detail_no_keyword: "\<not> has_keyword pbr_semantic_keywords (lower ''$detail'')"
  by code_simp

lemma detail_not_common: "lower ''$detail'' \<notin> set common_pbr_params"
  by code_simp

lemma mat_not_in_custom_tex: "\<not> str_in (lower ''mat'') (value_lower ''custom/tex'')"
  by code_simp

lemma mat_not_in_other_tex: "\<not> str_in (lower ''mat'') (value_lower ''other/tex'')"
  by code_simp

lemma mat_not_in_metal: "\<not> str_in (lower ''mat'') (value_lower ''metal'')"
  by code_simp

lemma mat_not_in_default: "\<not> str_in (lower ''mat'') (value_lower ''default'')"
  by code_simp

section \<open>Splitting, stripping and the written parameter line\<close>

lemma split_chr_not_Nil: "split_chr c s \<noteq> []"
  by (induction s) (auto split: list.splits)

lemma split_chr_no_sep: "c \<notin> set s \<Longrightarrow> split_chr c s = [s]"
  by (induction s) auto

lemma split_chr_append:
  "c \<notin> set w \<Longrightarrow> split_chr c (w @ c # rest) = w # split_chr c rest"
  by (induction w) auto

lemma split_join_nl:
  "ls \<noteq> [] \<Longrightarrow> (\<And>l. l \<in> set ls \<Longrightarrow> newline \<notin> set l) \<Longrightarrow>
   split_chr newline (join_nl ls) = ls"
proof (induction ls rule: join_nl.induct)
  case 1
  then show ?case by simp
next
  case (2 l)
  then show ?case by (simp add: split_chr_no_sep)
next
  case (3 l l' ls)
  then show ?case by (simp add: split_chr_append)
qed

lemma strip_inner:
  "\<not> isspace a \<Longrightarrow> \<not> isspace b \<Longrightarrow> strip (a # s @ [b]) = a # s @ [b]"
  by (simp add: strip_def)

lemma strip_lead: "isspace t \<Longrightarrow> strip (t # s) = strip s"
  by (simp add: strip_def)

lemma strip_single: "\<not> isspace a \<Longrightarrow> strip [a] = [a]"
  by (simp add: strip_def)

lemma isspace_tab: "isspace tab"
  by (simp add: isspace_def tab_def)

lemma not_isspace_dquote: "\<not> isspace dquote"
  by (simp add: isspace_def dquote_def)

lemma strip_param_line: "strip (param_line kv) = tl (param_line kv)"
proof -
  have "param_line kv = tab # dquote # (fst kv @ dquote # tab # tab # dquote # snd kv) @ [dquote]"
    by (simp add: param_line_def)
  then show ?thesis
    by (simp only: strip_lead [OF isspace_tab] strip_inner [OF not_isspace_dquote not_isspace_dquote] list.sel)
qed

lemma split_param_line:
  assumes "dquote \<notin> set k" "dquote \<notin> set v"
  shows "split_chr dquote (tl (param_line (k, v))) = [[], k, [tab, tab], v, []]"
proof -
  have t: "dquote \<notin> set [tab, tab]" by (simp add: dquote_def tab_def)
  have "tl (param_line (k, v)) = [] @ dquote # (k @ dquote # ([tab, tab] @ dquote # (v @ dquote # [])))"
    by (simp add: param_line_def)
  then show ?thesis
    using assms t by (simp only: split_chr_append) (simp add: split_chr_append)
qed

lemma parse_param_line:
  assumes "startswith ''$'' k" "dquote \<notin> set k" "dquote \<notin> set v"
  shows "parse_standard_vmt_line params (param_line (k, v)) = dict_set k v params"
proof -
  obtain k' where k: "k = CHR ''$'' # k'"
    using assms(1) by (cases k) (auto simp: startswith_def)
  have 1: "startswith [dquote, CHR ''$''] (tl (param_line (k, v)))"
    by (simp add: param_line_def k startswith_def)
  have 2: "chr_in dquote (drop 2 (tl (param_line (k, v))))"
    by (simp add: param_line_def k chr_in_def)
  show ?thesis
    unfolding parse_standard_vmt_line_def strip_param_line Let_def
    using 1 2 by (simp add: split_param_line [OF assms(2,3)])
qed

lemma parse_header_line:
  \<open>parse_standard_vmt_line params ''"VertexLitGeneric"'' = params\<close>
  by (simp add: parse_standard_vmt_line_def strip_def isspace_def startswith_def dquote_def)

lemma parse_open_line: "parse_standard_vmt_line params ''{'' = params"
  by (simp add: parse_standard_vmt_line_def strip_def isspace_def startswith_def)

lemma parse_close_line: "parse_standard_vmt_line params ''}'' = params"
  by (simp add: parse_standard_vmt_line_def strip_def isspace_def startswith_def)

lemma foldl_parse_param_lines:
  "list_all plain_param d \<Longrightarrow>
   foldl parse_standard_vmt_line acc (map param_line d) = dict_update acc d"
proof (induction d arbitrary: acc)
  case Nil
  then show ?case by (simp add: dict_update_def)
next
  case (Cons kv d)
  obtain k v where kv: "kv = (k, v)" by (cases kv)
  from Cons.prems have "plain_param (k, v)" "list_all plain_param d" by (simp_all add: kv)
  then have "parse_standard_vmt_line acc (param_line (k, v)) = dict_set k v acc"
    by (simp add: plain_param_def parse_param_line)
  with Cons.IH [OF \<open>list_all plain_param d\<close>] show ?case
    by (simp add: kv dict_update_def)
qed

lemma dict_update_fresh:
  "distinct (map fst (acc @ d)) \<Longrightarrow> dict_update acc d = acc @ d"
proof (induction d arbitrary: acc)
  case Nil
  then show ?case by (simp add: dict_update_def)
next
  case (Cons kv d)
  have "fst kv \<notin> fst ` set acc" using Cons.prems by auto
  then have "dict_set (fst kv) (snd kv) acc = acc @ [kv]"
    by (simp add: dict_set_new)
  moreover have "distinct (map fst ((acc @ [kv]) @ d))" using Cons.prems by simp
  ultimately show ?case
    using Cons.IH [of "acc @ [kv]"] by (simp add: dict_update_def case_prod_unfold)
qed

lemma newline_free_param_line: "plain_param kv \<Longrightarrow> newline \<notin> set (param_line kv)"
  by (simp add: plain_param_def param_line_def newline_def tab_def dquote_def)

lemma parse_standard_build:
  assumes "distinct (map fst d)" "list_all plain_param d"
  shows "parse_standard_vmt (build_vmt_from_params d) = d"
proof -
  let ?ls = \<open>[''"VertexLitGeneric"'', ''{''] @ map param_line d @ [''}'']\<close>
  have nl: "newline \<notin> set l" if "l \<in> set ?ls" for l
    using that assms(2) newline_free_param_line
    by (auto simp: list_all_iff newline_def dquote_def)
  have "split_chr newline (join_nl ?ls) = ?ls"
    by (rule split_join_nl) (simp, rule nl)
  then have "parse_standard_vmt (build_vmt_from_params d) = foldl parse_standard_vmt_line [] ?ls"
    by (simp add: parse_standard_vmt_def build_vmt_from_params_def)
  also have "\<dots> = dict_update [] d"
    by (simp add: parse_header_line parse_open_line parse_close_line
        foldl_parse_param_lines [OF assms(2)])
  also have "\<dots> = d"
    using dict_update_fresh [of "[]" d] assms(1) by simp
  finally show ?thesis .
qed

lemma plain_wood_params:
  "list_all plain_param [(''$basetexture'', ''wood/floor''), (''$surfaceprop'', ''wood'')]"
  by code_simp

lemma wood_text_no_patch:
  "\<not> looks_like_patch
     (build_vmt_from_params [(''$basetexture'', ''wood/floor''), (''$surfaceprop'', ''wood'')])"
  by code_simp

section \<open>Merging into the empty dictionary\<close>

lemma smart_merge_step_empty:
  "smart_merge_step pbr [] merged pv = dict_set (fst pv) (snd pv) merged"
  by (simp add: smart_merge_step_def dict_in_def)

lemma smart_merge_params_empty:
  "distinct (map fst g) \<Longrightarrow> smart_merge_params m [] g = g"
proof -
  assume d: "distinct (map fst g)"
  have "foldl (smart_merge_step pbr []) acc xs = dict_update acc xs" for pbr acc xs
    by (induction xs arbitrary: acc)
       (simp_all add: dict_update_def smart_merge_step_empty case_prod_unfold)
  then have "smart_merge_params m [] g = dict_update [] g"
    by (simp add: smart_merge_params_def)
  also have "\<dots> = g" using dict_update_fresh [of "[]" g] d by simp
  finally show ?thesis .
qed

lemma parse_malformed_text: "parse_vmt_params malformed_text = []"
  by code_simp

section \<open>A parameter line in the batch patch parser\<close>

lemma split_chr_Cons_sep: "split_chr c (c # s) = [] # split_chr c s"
  by simp

lemma split_chr_Cons_other:
  "x \<noteq> c \<Longrightarrow> split_chr c (x # s) = (x # hd (split_chr c s)) # tl (split_chr c s)"
  using split_chr_not_Nil [of c s] by (cases "split_chr c s") simp_all

lemma length_split_chr_no_sep: "c \<notin> set s \<Longrightarrow> length (split_chr c s) = 1"
  by (simp add: split_chr_no_sep)

lemma param_line_parts:
  assumes "startswith [dquote, CHR ''$''] line" and "parse_vmt_line line = Some (name, value)"
  shows "name \<noteq> [] \<and> chr_in dquote (drop 2 line)"
proof -
  obtain rest where line: "line = dquote # CHR ''$'' # rest"
    using assms(1) by (cases line; cases "tl line") (auto simp: startswith_def)
  have ne: "CHR ''$'' \<noteq> dquote" by (simp add: dquote_def)
  let ?r = "split_chr dquote rest"
  have parts: "split_chr dquote line = [] # (CHR ''$'' # hd ?r) # tl ?r"
    unfolding line by (simp only: split_chr_Cons_sep split_chr_Cons_other [OF ne])
  from assms(2) have len: "length (split_chr dquote line) \<ge> 4" and n: "name = split_chr dquote line ! 1"
    by (auto simp: parse_vmt_line_def Let_def split: if_splits)
  from n parts have "name \<noteq> []" by simp
  moreover have "dquote \<in> set rest"
  proof (rule ccontr)
    assume "dquote \<notin> set rest"
    then have "?r = [rest]" by (rule split_chr_no_sep)
    with parts len show False by simp
  qed
  ultimately show ?thesis by (simp add: line chr_in_def)
qed

lemma rep_line_facts:
  \<open>startswith [dquote, CHR ''$''] (strip ''    "$basetexture" "rep/tex"'')\<close>
  \<open>parse_vmt_line (strip ''    "$basetexture" "rep/tex"'') = Some (''$basetexture'', ''rep/tex'')\<close>
  \<open>\<not> chr_in (CHR ''}'') (strip ''    "$basetexture" "rep/tex"'')\<close>
  by code_simp+

lemma example_patch_include:
  "include_match (split_chr newline example_patch_text) = Some ''base.vmt''"
  by code_simp

section \<open>Writing a patch document back: the loop of \<open>_build_patch_vmt\<close>\<close>





lemma scenario_B_tail_plain: "list_all no_param_line [''  }'', ''}'']"
  by code_simp





















section \<open>Idempotent merge\<close>


section \<open>Round trip\<close>

text \<open>
  Claim C2, as the code has it.  \<open>build_vmt_from_params\<close> writes a Standard
  document with the shader name \<open>VertexLitGeneric\<close>, and \<open>parse_vmt_params\<close> returns
  the parameters only.  For every dictionary with distinct keys whose keys start with
  \<open>$\<close>, whose keys and values hold no quote and no line break, and whose written text
  does not hold both the words \<open>patch\<close> and \<open>include\<close> (in any case), parsing the
  written text gives the dictionary back: the same keys, the same values, in the same
  order.
\<close>

theorem roundtrip_standard:
  assumes "distinct (map fst d)" and "list_all plain_param d"
    and "\<not> looks_like_patch (build_vmt_from_params d)"
  shows "parse_vmt_params (build_vmt_from_params d) = d"
  using assms by (auto simp: parse_vmt_params_def looks_like_patch_def parse_standard_build)

theorem roundtrip_standard_witness:
  "parse_vmt_params (build_vmt_from_params
      [(''$basetexture'', ''wood/floor''), (''$surfaceprop'', ''wood'')])
   = [(''$basetexture'', ''wood/floor''), (''$surfaceprop'', ''wood'')]"
  by (rule roundtrip_standard [OF _ plain_wood_params wood_text_no_patch]) simp

text \<open>
  The claim as stated fails where a value holds the words \<open>patch\<close> and \<open>include\<close>:
  the written text is then read as a patch document, and no parameter is found.
\<close>

theorem roundtrip_fails_on_patch_words:
  "parse_vmt_params (build_vmt_from_params [(''$basetexture'', ''models/patch/include_me'')]) = []"
  by code_simp

section \<open>Custom parameters\<close>

text \<open>
  Claim C3, as the code has it.  A key \<open>k\<close> of the existing dictionary keeps its
  value through the merge loop of \<open>smart_merge_vmt\<close>, whatever the generated
  dictionary binds to it, when \<open>k\<close> is not a derived name (its lower-case form has no
  keyword of \<open>pbr_semantic_keywords\<close> and is not in \<open>common_pbr_params\<close>) and the
  material name occurs, case-insensitively, in no value that the existing or the
  generated dictionary binds to a key equal to \<open>k\<close> up to case.
\<close>

theorem custom_preserved:
  assumes "dict_get existing k = Some v"
    and "\<not> has_keyword pbr_semantic_keywords (lower k)"
    and "lower k \<notin> set common_pbr_params"
    and "\<And>p w. (p, w) \<in> set existing \<union> set generated \<Longrightarrow> lower p = lower k \<Longrightarrow>
           \<not> str_in (lower m) (value_lower w)"
  shows "dict_get (smart_merge_params m existing generated) k = Some v"
proof -
  let ?pbr = "identify_pbr_parameters m existing generated"
  have "lower k \<notin> ?pbr"
  proof
    assume "lower k \<in> ?pbr"
    then consider p w where "(p, w) \<in> set existing" "lower k = lower p"
        "str_in (lower m) (value_lower w)"
      | p w where "(p, w) \<in> set generated" "lower k = lower p"
        "str_in (lower m) (value_lower w) \<or> has_keyword pbr_semantic_keywords (lower p)
         \<or> lower p \<in> set common_pbr_params"
      unfolding identify_pbr_parameters_iff by blast
    then show False
    proof cases
      case 1
      with assms(4) [of p w] show False by simp
    next
      case 2
      with assms(2,3) assms(4) [of p w] show False by auto
    qed
  qed
  moreover have "dict_in k existing"
    using assms(1) by (auto simp: dict_get_def dict_in_def dest: map_of_SomeD intro: rev_image_eqI)
  ultimately have "smart_merge_step ?pbr existing merged (k, w) = merged" for merged w
    by (simp add: smart_merge_step_def)
  then have "map_of (foldl (smart_merge_step ?pbr existing) existing generated) k
      = map_of existing k"
    by (intro map_of_foldl_smart_merge_keep) simp
  with assms(1) show ?thesis
    by (simp add: dict_get_def smart_merge_params_def)
qed

theorem custom_preserved_witness:
  "dict_get (smart_merge_params ''mat''
      [(''$detail'', ''custom/tex''), (''$surfaceprop'', ''metal'')]
      [(''$detail'', ''other/tex''), (''$surfaceprop'', ''default'')]) ''$detail''
     = Some ''custom/tex''"
proof -
  let ?e = "[(''$detail'', ''custom/tex''), (''$surfaceprop'', ''metal'')]"
  let ?g = "[(''$detail'', ''other/tex''), (''$surfaceprop'', ''default'')]"
  have h1: "dict_get ?e ''$detail'' = Some ''custom/tex''"
    by (simp add: dict_get_def)
  have h4: "\<not> str_in (lower ''mat'') (value_lower w)"
    if "(p, w) \<in> set ?e \<union> set ?g" for p w
    using that by (auto simp: mat_not_in_custom_tex mat_not_in_other_tex mat_not_in_metal mat_not_in_default)
  show ?thesis
    by (rule custom_preserved [OF h1 detail_no_keyword detail_not_common h4])
qed

text \<open>
  The claim as stated looks at the existing value only.  \<open>identify_pbr_parameters\<close>
  also looks at the generated value: \<open>$detail\<close> is no derived name and its existing
  value \<open>custom/tex\<close> does not hold the material name \<open>mat\<close>, yet the generated value
  \<open>mat_detail\<close> does, and the existing value is overwritten.
\<close>

theorem custom_overwritten:
  \<open>dict_get [(''$detail'', ''custom/tex'')] ''$detail'' = Some ''custom/tex'' \<and>
   \<not> has_keyword pbr_semantic_keywords (lower ''$detail'') \<and>
   lower ''$detail'' \<notin> set common_pbr_params \<and>
   \<not> str_in (lower ''mat'') (value_lower ''custom/tex'') \<and>
   dict_get (smart_merge_params ''mat'' [(''$detail'', ''custom/tex'')]
      [(''$detail'', ''mat_detail'')]) ''$detail'' = Some ''mat_detail''\<close>
  by code_simp

section \<open>Shape of the document and the include path\<close>




section \<open>Scenario A\<close>

text \<open>
  Claim C5.  Scenario A: the existing parameters \<open>$basetexture = old/path\<close>,
  \<open>$surfaceprop = metal\<close> merged with the generated parameters
  \<open>$basetexture = new/path\<close>, \<open>$phong = 1\<close> give, in this order,
  \<open>$basetexture = new/path\<close>, \<open>$surfaceprop = metal\<close>, \<open>$phong = 1\<close>, for every
  material name.  Both generated names carry a keyword of \<open>pbr_semantic_keywords\<close>
  (the derived keys of the scenario); the custom key keeps its place and value, the
  derived key is overwritten in place, the new key is appended.  The same holds from
  the two texts to the text written.
\<close>

theorem scenario_A:
  "smart_merge_params m scenario_A_existing scenario_A_generated = scenario_A_merged \<and>
   smart_merge_vmt (fs(p \<mapsto> scenario_A_existing_text)) m p scenario_A_generated_text
     = Merged (build_vmt_from_params scenario_A_merged)"
  by (simp add: smart_merge_vmt_def parse_scenario_A_existing parse_scenario_A_generated
      smart_merge_scenario_A)

section \<open>New keys\<close>

text \<open>
  Claim C6, as the code has it.  In the merge loop of \<open>smart_merge_vmt\<close> every key
  of the generated dictionary that the existing dictionary does not hold (as written,
  hence also when it is absent under case-insensitive comparison) is bound in the
  result to the generated value.  The merge loop of \<open>merge_vmt_files\<close> adds such a
  key only when its lower-case form is in the table \<open>pbr_params\<close>; any other new key
  is left out.
\<close>

theorem new_key_added:
  assumes "distinct (map fst generated)" and "(k, v) \<in> set generated"
    and "\<not> dict_in k existing"
  shows "dict_get (smart_merge_params m existing generated) k = Some v \<and>
         (lower k \<in> set pbr_params \<longrightarrow>
            dict_get (merge_vmt_params existing generated) k = Some v) \<and>
         (lower k \<notin> set pbr_params \<longrightarrow>
            dict_get (merge_vmt_params existing generated) k = None)"
proof -
  have "map_of existing k = None"
    using assms(3) by (simp add: dict_in_def map_of_eq_None_iff)
  then show ?thesis
    using assms
    by (simp add: dict_get_def smart_merge_params_def merge_vmt_params_def
        foldl_smart_merge_new foldl_merge_vmt_new map_of_foldl_merge_vmt_not_pbr)
qed

theorem new_key_added_witness:
  "dict_get (smart_merge_params ''mat'' [(''$surfaceprop'', ''metal'')]
      [(''$detail'', ''x''), (''$phong'', ''1'')]) ''$detail'' = Some ''x'' \<and>
   dict_get (merge_vmt_params [(''$surfaceprop'', ''metal'')]
      [(''$detail'', ''x''), (''$phong'', ''1'')]) ''$detail'' = None \<and>
   dict_get (merge_vmt_params [(''$surfaceprop'', ''metal'')]
      [(''$detail'', ''x''), (''$phong'', ''1'')]) ''$phong'' = Some ''1''"
  using new_key_added [of "[(''$detail'', ''x''), (''$phong'', ''1'')]" "''$detail''" "''x''"
      "[(''$surfaceprop'', ''metal'')]" "''mat''"]
    new_key_added [of "[(''$detail'', ''x''), (''$phong'', ''1'')]" "''$phong''" "''1''"
      "[(''$surfaceprop'', ''metal'')]" "''mat''"]
  by (simp add: dict_in_def lower_detail_not_pbr lower_phong_pbr)

text \<open>
  The claim as stated fails for \<open>merge_vmt_files\<close>: the generated key \<open>$detail\<close> is
  absent from the existing file, and it is absent from the merged file too.
\<close>

theorem new_key_suppressed:
  \<open>merge_vmt_files
     (Map.empty(''old.vmt'' \<mapsto> join_nl [''"VertexLitGeneric"'', ''{'', ''}'']))
     ''old.vmt''
     (join_nl [''"VertexLitGeneric"'', ''{'', ''  "$detail" "x"'', ''}''])
   = Merged (join_nl [''"VertexLitGeneric"'', ''{'', ''}''])\<close>
  by code_simp

section \<open>Malformed input\<close>

text \<open>
  Claim C7, as the code has it.  Parsing the text \<open>"Foo" { "$a" "1"\<close>, whose closing
  brace is missing, does not fail: the parser works line by line, never looks at
  braces, and returns the empty dictionary (the one line does not start with \<open>"$\<close>).
  \<open>smart_merge_vmt\<close> then merges into the empty dictionary and writes the parameters
  it parsed from the generated text; it returns the generated text itself only when
  the existing file cannot be read.
\<close>

theorem malformed_text_is_parsed:
  "parse_vmt_params malformed_text = [] \<and>
   smart_merge_vmt (fs(p \<mapsto> malformed_text)) m p generated_vmt
     = Merged (build_vmt_from_params (parse_vmt_params generated_vmt)) \<and>
   smart_merge_vmt (fs(p := None)) m p generated_vmt = Fallback generated_vmt"
  by (simp add: smart_merge_vmt_def parse_malformed_text smart_merge_params_empty
      distinct_parse_vmt_params)

text \<open>
  The claim as stated fails: with the malformed text as the existing file and the
  generated text of \<open>generate_l4d2_vmt_with_materials_detection\<close>, no error is raised,
  the merge branch is taken, and the text written is an empty block, not the generated
  text.
\<close>

theorem malformed_text_not_rejected:
  \<open>smart_merge_vmt (Map.empty(''old.vmt'' \<mapsto> malformed_text)) ''mat'' ''old.vmt''
     (generate_l4d2_vmt_with_materials_detection ''mat'')
   = Merged (join_nl [''"VertexLitGeneric"'', ''{'', ''}''])\<close>
  by code_simp

section \<open>The included file\<close>

text \<open>
  Claim C8, as the code has it.  The single-material engine reads one file only, the
  existing document: \<open>parse_patch_vmt\<close> finds the include path and reports it, and
  opens nothing.  So two file systems that agree on the existing document give the
  same result of \<open>smart_merge_vmt\<close>, whatever the included file holds in each.  The
  batch parser reads no file either while patch support is switched off.  With patch
  support on, it opens the included file and takes its parameters in.
\<close>

theorem single_engine_reads_one_file:
  assumes "fs1 p = fs2 p"
  shows "smart_merge_vmt fs1 m p generated_vmt = smart_merge_vmt fs2 m p generated_vmt \<and>
         (\<not> patch_enabled env \<longrightarrow>
            parse_batch_vmt_params (env\<lparr>files := fs1\<rparr>) depth vmt_content path
              = parse_batch_vmt_params (env\<lparr>files := fs2\<rparr>) depth vmt_content path)"
  using assms by (simp add: smart_merge_vmt_def parse_batch_vmt_params_def)

theorem single_engine_reads_one_file_witness:
  "include_match (split_chr newline example_patch_text) = Some ''base.vmt'' \<and>
   smart_merge_vmt
     (map_of [(''mat.vmt'', example_patch_text), (''base.vmt'', example_base_text)])
     ''mat'' ''mat.vmt'' scenario_A_generated_text
   = smart_merge_vmt
     (map_of [(''mat.vmt'', example_patch_text), (''base.vmt'', example_other_base_text)])
     ''mat'' ''mat.vmt'' scenario_A_generated_text \<and>
   parse_batch_vmt_params
     ((example_env [] False)
        \<lparr>files := map_of [(''mat.vmt'', example_patch_text), (''base.vmt'', example_base_text)]\<rparr>)
     1 example_patch_text ''''
   = parse_batch_vmt_params
     ((example_env [] False)
        \<lparr>files := map_of [(''mat.vmt'', example_patch_text),
                          (''base.vmt'', example_other_base_text)]\<rparr>)
     1 example_patch_text ''''"
  using single_engine_reads_one_file
    [of "map_of [(''mat.vmt'', example_patch_text), (''base.vmt'', example_base_text)]"
        "''mat.vmt''"
        "map_of [(''mat.vmt'', example_patch_text), (''base.vmt'', example_other_base_text)]"
        "''mat''" scenario_A_generated_text
        "example_env [] False" 1 example_patch_text "''''"]
  by (simp add: example_env_def example_patch_include)

text \<open>
  The claim as stated fails for the batch parser with patch support on: the same
  patch text parses to different dictionaries when only the included file differs.
\<close>

theorem batch_parser_reads_include_file:
  "parse_patch_vmt_params (example_env [(''base.vmt'', example_base_text)] True) 1
     example_patch_text ''''
   = [(''$envmap'', ''env_cubemap''), (''$basetexture'', ''rep/tex''), (''$detail'', ''ins/detail'')] \<and>
   parse_patch_vmt_params (example_env [(''base.vmt'', example_other_base_text)] True) 1
     example_patch_text ''''
   = [(''$envmap'', ''other_cubemap''), (''$basetexture'', ''rep/tex''), (''$detail'', ''ins/detail'')]"
  by code_simp

section \<open>Uniqueness of keys\<close>

text \<open>
  Claim C9, as the code has it.  The dictionaries that parsing and merging produce
  hold no key twice as written: keys are compared case-sensitively, so the keys of
  \<open>parse_vmt_params\<close> of any text, and of the merge of two parsed dictionaries, are
  distinct.
\<close>

theorem keys_distinct_as_written:
  "distinct (map fst (parse_vmt_params c)) \<and>
   distinct (map fst (smart_merge_params m (parse_vmt_params c) (parse_vmt_params g)))"
  by (simp add: distinct_parse_vmt_params distinct_smart_merge_params)

text \<open>
  Under case-insensitive comparison the claim fails: a file with \<open>$Phong\<close> and
  \<open>$phong\<close> parses to both keys, and merging the generated \<open>$phong\<close> into an existing
  \<open>$Phong\<close> appends a second, differently-cased copy.
\<close>

theorem keys_not_unique_ci:
  \<open>parse_vmt_params (join_nl [''"VertexLitGeneric"'', ''{'', ''  "$Phong" "0"'', ''  "$phong" "1"'', ''}''])
     = [(''$Phong'', ''0''), (''$phong'', ''1'')] \<and>
   keys_unique_ci [(''$Phong'', ''0'')] \<and> keys_unique_ci [(''$phong'', ''1'')] \<and>
   smart_merge_params ''mat'' [(''$Phong'', ''0'')] [(''$phong'', ''1'')]
     = [(''$Phong'', ''0''), (''$phong'', ''1'')] \<and>
   \<not> keys_unique_ci [(''$Phong'', ''0''), (''$phong'', ''1'')]\<close>
  by code_simp

section \<open>Priority of replace over insert when a patch document is flattened\<close>

text \<open>
  Claim C10, as the code has it.  One turn of the loop of \<open>parse_patch_vmt_params\<close>
  on a parameter line (stripped, it starts with \<open>"$\<close>, splits into a name and a
  value, and holds no closing brace): in a replace section a parameter with a
  non-empty value is stored whether or not the name is already bound, so it
  overwrites any earlier binding, also one loaded from the included file; in an insert
  section it is appended when the name is not bound yet, and the dictionary stays as
  it is when the name is bound; a parameter with an empty value is skipped in either
  section.
\<close>

theorem patch_section_priority:
  assumes "startswith [dquote, CHR ''$''] (strip raw)"
    and "parse_vmt_line (strip raw) = Some (name, value)"
    and "\<not> chr_in (CHR ''}'') (strip raw)"
  shows "(value \<noteq> [] \<and> p_section st = Some ''replace'' \<longrightarrow>
            p_params (parse_patch_vmt_params_line load st raw)
              = dict_set name value (p_params st) \<and>
            dict_get (p_params (parse_patch_vmt_params_line load st raw)) name = Some value) \<and>
         (value \<noteq> [] \<and> p_section st = Some ''insert'' \<and> \<not> dict_in name (p_params st) \<longrightarrow>
            p_params (parse_patch_vmt_params_line load st raw) = p_params st @ [(name, value)]) \<and>
         (p_section st = Some ''insert'' \<and> dict_in name (p_params st) \<longrightarrow>
            p_params (parse_patch_vmt_params_line load st raw) = p_params st) \<and>
         (value = [] \<longrightarrow> p_params (parse_patch_vmt_params_line load st raw) = p_params st)"
proof -
  let ?line = "strip raw"
  obtain rest where line: "?line = dquote # CHR ''$'' # rest"
    using assms(1) by (cases ?line; cases "tl ?line") (auto simp: startswith_def)
  from param_line_parts [OF assms(1,2)]
  have name: "name \<noteq> []" and q: "chr_in dquote (drop 2 ?line)" by simp_all
  have a: "?line \<noteq> []" "\<not> startswith ''//'' ?line" "\<not> startswith ''patch'' (lower ?line)"
    "\<not> startswith ''include'' ?line" "lower ?line \<noteq> ''insert''" "lower ?line \<noteq> ''replace''"
    by (simp_all add: line startswith_def dquote_def lower_def lower_chr_def)
  have s: "startswith ''\"$'' ?line"
    using assms(1) by (simp add: dquote_def)
  have step: "p_params (parse_patch_vmt_params_line load st raw) =
     (if p_section st \<noteq> None \<and> value \<noteq> [] \<and>
         (p_section st = Some ''replace'' \<or> \<not> dict_in name (p_params st))
      then dict_set name value (p_params st) else p_params st)"
    unfolding parse_patch_vmt_params_line_def Let_def
    using a s q assms(2,3) name by simp
  show ?thesis
    unfolding step
    by (auto simp: dict_get_def map_of_dict_set dict_set_new dict_in_def)
qed

theorem patch_section_priority_witness:
  \<open>p_params (parse_patch_vmt_params_line (\<lambda>inc. [])
      \<lparr>p_params = [(''$basetexture'', ''base/tex'')], p_section = Some ''replace'', p_level = 2\<rparr>
      ''    "$basetexture" "rep/tex"'') = [(''$basetexture'', ''rep/tex'')] \<and>
   p_params (parse_patch_vmt_params_line (\<lambda>inc. [])
      \<lparr>p_params = [(''$basetexture'', ''base/tex'')], p_section = Some ''insert'', p_level = 2\<rparr>
      ''    "$basetexture" "rep/tex"'') = [(''$basetexture'', ''base/tex'')] \<and>
   p_params (parse_patch_vmt_params_line (\<lambda>inc. [])
      \<lparr>p_params = [(''$envmap'', ''env_cubemap'')], p_section = Some ''insert'', p_level = 2\<rparr>
      ''    "$basetexture" "rep/tex"'')
     = [(''$envmap'', ''env_cubemap''), (''$basetexture'', ''rep/tex'')]\<close>
  using patch_section_priority [OF rep_line_facts, where load = "\<lambda>inc. []"
      and st = "\<lparr>p_params = [(''$basetexture'', ''base/tex'')], p_section = Some ''replace'', p_level = 2\<rparr>"]
    patch_section_priority [OF rep_line_facts, where load = "\<lambda>inc. []"
      and st = "\<lparr>p_params = [(''$basetexture'', ''base/tex'')], p_section = Some ''insert'', p_level = 2\<rparr>"]
    patch_section_priority [OF rep_line_facts, where load = "\<lambda>inc. []"
      and st = "\<lparr>p_params = [(''$envmap'', ''env_cubemap'')], p_section = Some ''insert'', p_level = 2\<rparr>"]
  by (simp add: dict_in_def)

text \<open>
  The claim as stated fails for an empty value: the included file binds \<open>$envmap\<close>,
  the replace section gives \<open>$envmap\<close> the value \<open>""\<close>, and the earlier binding
  stays.
\<close>

theorem replace_with_empty_value_ignored:
  "parse_patch_vmt_params (example_env [(''base.vmt'', example_base_text)] True) 1
     example_empty_replace_text ''''
   = [(''$envmap'', ''env_cubemap''), (''$basetexture'', ''base/tex'')]"
  by code_simp

end
